theory Spec2Isabelle
  imports Complex_Main "HOL-Library.Word"
begin

unbundle bit_operations_syntax

section \<open>Wire-level types and protocol constants\<close>

type_synonym byte = "8 word"
type_synonym int32 = "32 word"

text \<open>\<^verbatim>\<open>protocol.js\<close> is required by \<^verbatim>\<open>rcon.js\<close> but is not among the sources. Section 6 of the
  specification gives the four message types. The request id \<^verbatim>\<open>Protocol.ID_AUTH\<close> is not given
  anywhere; \<open>authenticate\<close> below takes it as a parameter.\<close>

text \<open>Modelled from the spec: \<^verbatim>\<open>Protocol.SERVERDATA_AUTH\<close> of the missing \<^verbatim>\<open>protocol.js\<close>; Section 6:
  \<^verbatim>\<open>AUTH = 3\<close>.\<close>

definition SERVERDATA_AUTH :: int32 where
  "SERVERDATA_AUTH = 3"

text \<open>Modelled from the spec: \<^verbatim>\<open>Protocol.SERVERDATA_AUTH_RESPONSE\<close> of the missing \<^verbatim>\<open>protocol.js\<close>;
  Section 6: \<^verbatim>\<open>AUTH_RESPONSE = 2\<close>.\<close>

definition SERVERDATA_AUTH_RESPONSE :: int32 where
  "SERVERDATA_AUTH_RESPONSE = 2"

text \<open>Modelled from the spec: \<^verbatim>\<open>Protocol.SERVERDATA_EXECCOMMAND\<close> of the missing \<^verbatim>\<open>protocol.js\<close>;
  Section 6: \<^verbatim>\<open>EXECCOMMAND = 2\<close>, the same number as \<^verbatim>\<open>AUTH_RESPONSE\<close>.\<close>

definition SERVERDATA_EXECCOMMAND :: int32 where
  "SERVERDATA_EXECCOMMAND = 2"

text \<open>Modelled from the spec: \<^verbatim>\<open>Protocol.SERVERDATA_RESPONSE_VALUE\<close> of the missing \<^verbatim>\<open>protocol.js\<close>;
  Section 6: \<^verbatim>\<open>RESPONSE_VALUE = 0\<close>.\<close>

definition SERVERDATA_RESPONSE_VALUE :: int32 where
  "SERVERDATA_RESPONSE_VALUE = 0"

section \<open>Packet codec (packet.js)\<close>

text \<open>The little-endian 32-bit fields of a buffer. \<open>readInt32LE buf off\<close> is only used where
  \<open>off + 4 \<le> length buf\<close>.\<close>

definition writeInt32LE :: "int32 \<Rightarrow> byte list" where
  "writeInt32LE w = [ucast w, ucast (drop_bit 8 w), ucast (drop_bit 16 w), ucast (drop_bit 24 w)]"

definition readInt32LE :: "byte list \<Rightarrow> nat \<Rightarrow> int32" where
  "readInt32LE buf off =
     ucast (buf ! off) OR push_bit 8 (ucast (buf ! (off + 1)))
       OR push_bit 16 (ucast (buf ! (off + 2))) OR push_bit 24 (ucast (buf ! (off + 3)))"

text \<open>A body is a \<open>string\<close>: the sequence of byte-sized characters its text occupies in the
  session's encoding, so that \<open>length body\<close> is the byte length the size field counts and the
  text codec is the identity on bytes.\<close>

definition byte_of_char :: "char \<Rightarrow> byte" where
  "byte_of_char c = word_of_nat (of_char c)"

definition char_of_byte :: "byte \<Rightarrow> char" where
  "char_of_byte b = char_of (unat b)"

record decoded_packet =
  packet_size :: int32
  packet_id :: int32
  packet_type :: int32
  packet_body :: string

text \<open>Modelled from the spec: \<^verbatim>\<open>Packet.encode\<close> of \<^verbatim>\<open>packet.js\<close>, which is not among the sources.
  Section 4.1: size (value 4+4+len(body)+2), id, type, each 4 bytes little-endian, then the
  body as text, one terminator byte and one additional zero byte.\<close>

definition encode :: "int32 \<Rightarrow> int32 \<Rightarrow> string \<Rightarrow> string \<Rightarrow> byte list" where
  "encode type ident body encoding =
     writeInt32LE (word_of_nat (4 + 4 + length body + 2)) @ writeInt32LE ident @ writeInt32LE type
       @ map byte_of_char body @ [0] @ [0]"

text \<open>Modelled from the spec: the trimming \<^verbatim>\<open>Packet.decode\<close> does, Section 4.1: a single trailing
  newline character is trimmed if present, exactly one and not all.\<close>

definition trim_newline :: "string \<Rightarrow> string" where
  "trim_newline text = (if text \<noteq> [] \<and> last text = CHR 0x0A then butlast text else text)"

text \<open>Modelled from the spec: \<^verbatim>\<open>Packet.decode\<close> of \<^verbatim>\<open>packet.js\<close>, which is not among the sources.
  Section 4.1: the three 4-byte little-endian integers are read positionally, the remainder is
  decoded as text up to (but excluding) the two trailing terminator bytes, and a single
  trailing newline is trimmed; the declared size is not validated. The specification does not
  say what happens on a buffer shorter than the twelve header bytes and the two terminator
  bytes, which is no frame of Section 6: the model returns \<open>None\<close> there.\<close>

definition decode :: "byte list \<Rightarrow> string \<Rightarrow> decoded_packet option" where
  "decode buf encoding =
     (if length buf < 14 then None
      else Some \<lparr>packet_size = readInt32LE buf 0,
                 packet_id = readInt32LE buf 4,
                 packet_type = readInt32LE buf 8,
                 packet_body = trim_newline (map char_of_byte (take (length buf - 14) (drop 12 buf)))\<rparr>)"

section \<open>The RCON session (rcon.js)\<close>

subsection \<open>Promises\<close>

text \<open>\<^verbatim>\<open>Error(message)\<close>; the error object of a transport \<^verbatim>\<open>'error'\<close> event is one too.\<close>

datatype error = Error string

datatype jsvalue = Undefined | Str string

datatype outcome = Pending | Resolved jsvalue | Rejected error

text \<open>The two \<^verbatim>\<open>.then(...).catch(reject)\<close> chains of the source, each with the promise whose
  \<^verbatim>\<open>resolve\<close> and \<^verbatim>\<open>reject\<close> it closes over: the one of \<^verbatim>\<open>authenticate\<close> (lines 97-106) and the
  one of the job \<^verbatim>\<open>execute\<close> enqueues (lines 203-204).\<close>

datatype reaction = AuthenticateThen nat | ExecuteThen nat

record promise =
  outcome :: outcome
  reactions :: "reaction list"

subsection \<open>The transport and the sequencer\<close>

text \<open>The closures \<^verbatim>\<open>write\<close> registers are named by the \<^verbatim>\<open>type\<close> argument and the promise of the
  call that created them; those of \<^verbatim>\<open>disconnect\<close> by its promise.\<close>

datatype data_listener = OnData int32 nat

datatype error_listener = WriteOnError int32 nat | DisconnectOnError nat

datatype close_listener = OnClose nat

text \<open>What the session does to its \<^verbatim>\<open>net.Socket\<close>: the address and idle timeout it was created
  with, the two flags, the buffers passed to \<^verbatim>\<open>connection.write\<close> in order, and the listeners
  attached to the three events, oldest first.\<close>

record connection =
  remote_host :: string
  remote_port :: int
  idle_timeout :: int
  writable :: bool
  destroyed :: bool
  written :: "byte list list"
  data_listeners :: "data_listener list"
  error_listeners :: "error_listener list"
  close_listeners :: "close_listener list"

definition createConnection :: "string \<Rightarrow> int \<Rightarrow> connection" where
  "createConnection h p =
     \<lparr>remote_host = h, remote_port = p, idle_timeout = 0, writable = True, destroyed = False,
      written = [], data_listeners = [], error_listeners = [], close_listeners = []\<rparr>"

text \<open>\<^verbatim>\<open>emitter.removeListener\<close> removes at most one instance, the most recently added.\<close>

definition removeListener :: "'a \<Rightarrow> 'a list \<Rightarrow> 'a list" where
  "removeListener l ls = rev (remove1 l (rev ls))"

text \<open>The closure \<^verbatim>\<open>execute\<close> pushes on the queue: the promise of the call, \<^verbatim>\<open>packetID\<close> and
  \<^verbatim>\<open>command\<close>.\<close>

datatype job = ExecuteJob nat int string

text \<open>The sequencer is the \<^verbatim>\<open>queue\<close> package, built on line 82 with \<^verbatim>\<open>autostart\<close>, a concurrency of 1
  and a timeout of 500 ms per job. Its state: the jobs pushed and not yet started, oldest
  first, and the number of jobs started and not yet ended.\<close>

record queue =
  jobs :: "job list"
  pending :: nat

subsection \<open>Session state\<close>

text \<open>The fields of \<^verbatim>\<open>SourceRCON\<close> (lines 28-82). \<open>promises\<close> is the store of the promises created so
  far, a promise being named by its index; \<open>microtasks\<close> is the queue of promise chains ready to
  run.\<close>

record session =
  host :: string
  port :: int
  maximumPacketSize :: int
  encoding :: string
  timeout :: int
  connection :: connection
  authenticated :: bool
  q :: queue
  promises :: "promise list"
  microtasks :: "(reaction \<times> outcome) list"

text \<open>The options object; \<open>None\<close> is an omitted key. Numbers are integers here.\<close>

record options =
  opt_host :: "string option"
  opt_port :: "int option"
  opt_maximumPacketSize :: "int option"
  opt_encoding :: "string option"
  opt_timeout :: "int option"

text \<open>\<^verbatim>\<open>value || default\<close>: the default replaces an omitted value and a falsy one.\<close>

definition or_string :: "string option \<Rightarrow> string \<Rightarrow> string" where
  "or_string v d = (case v of None \<Rightarrow> d | Some x \<Rightarrow> if x = [] then d else x)"

definition or_number :: "int option \<Rightarrow> int \<Rightarrow> int" where
  "or_number v d = (case v of None \<Rightarrow> d | Some x \<Rightarrow> if x = 0 then d else x)"

text \<open>Lines 22-83. A new socket accepts writes (they are buffered while it connects).\<close>

definition constructor :: "options \<Rightarrow> session" where
  "constructor opts =
     (let h = or_string (opt_host opts) ''127.0.0.1'';
          p = or_number (opt_port opts) 27015;
          m = or_number (opt_maximumPacketSize opts) 4096;
          e = or_string (opt_encoding opts) ''ascii'';
          t = or_number (opt_timeout opts) 1000
      in \<lparr>host = h, port = p, maximumPacketSize = m, encoding = e, timeout = t,
          connection = (createConnection h p)\<lparr>idle_timeout := t\<rparr>,
          authenticated = False, q = \<lparr>jobs = [], pending = 0\<rparr>, promises = [],
          microtasks = []\<rparr>)"

subsection \<open>Settling and chaining promises\<close>

definition new_promise :: "session \<Rightarrow> nat \<times> session" where
  "new_promise s =
     (length (promises s), s\<lparr>promises := promises s @ [\<lparr>outcome = Pending, reactions = []\<rparr>]\<rparr>)"

text \<open>Only the first \<^verbatim>\<open>resolve\<close> or \<^verbatim>\<open>reject\<close> of a promise has an effect; the chains attached
  to it are then queued as microtasks.\<close>

definition settle :: "nat \<Rightarrow> outcome \<Rightarrow> session \<Rightarrow> session" where
  "settle p out s =
     (if p < length (promises s) \<and> outcome (promises s ! p) = Pending
      then s\<lparr>promises := (promises s)[p := \<lparr>outcome = out, reactions = []\<rparr>],
             microtasks := microtasks s @ map (\<lambda>k. (k, out)) (reactions (promises s ! p))\<rparr>
      else s)"

definition resolve :: "nat \<Rightarrow> jsvalue \<Rightarrow> session \<Rightarrow> session" where
  "resolve p v s = settle p (Resolved v) s"

definition reject :: "nat \<Rightarrow> error \<Rightarrow> session \<Rightarrow> session" where
  "reject p e s = settle p (Rejected e) s"

text \<open>\<^verbatim>\<open>promise.then(...).catch(reject)\<close>: on a pending promise the chain waits; on a settled one it
  is queued at once.\<close>

definition then_catch :: "nat \<Rightarrow> reaction \<Rightarrow> session \<Rightarrow> session" where
  "then_catch p k s =
     (if length (promises s) \<le> p then s
      else if outcome (promises s ! p) = Pending
      then s\<lparr>promises := (promises s)[p := (promises s ! p)\<lparr>reactions := reactions (promises s ! p) @ [k]\<rparr>]\<rparr>
      else s\<lparr>microtasks := microtasks s @ [(k, outcome (promises s ! p))]\<rparr>)"

subsection \<open>disconnect\<close>

text \<open>Lines 114-132: the flag is cleared and the socket destroyed (after which it is no longer
  writable), then the two one-shot listeners of the returned promise are attached.\<close>

definition disconnect :: "session \<Rightarrow> nat \<times> session" where
  "disconnect s =
     (let s1 = s\<lparr>authenticated := False\<rparr>;
          s2 = s1\<lparr>connection := (connection s1)\<lparr>destroyed := True, writable := False\<rparr>\<rparr>;
          (p, s3) = new_promise s2;
          s4 = s3\<lparr>connection := (connection s3)\<lparr>close_listeners := close_listeners (connection s3) @ [OnClose p]\<rparr>\<rparr>;
          s5 = s4\<lparr>connection := (connection s4)\<lparr>error_listeners := error_listeners (connection s4) @ [DisconnectOnError p]\<rparr>\<rparr>
      in (p, s5))"

subsection \<open>Microtasks\<close>

text \<open>The callbacks of the two chains. For \<^verbatim>\<open>authenticate\<close> (lines 97-106): on \<^verbatim>\<open>'success'\<close> the
  flag is set and the call resolves; on any other value the session disconnects and the call is
  rejected; a rejection of \<^verbatim>\<open>write\<close> is passed on. For the job of \<^verbatim>\<open>execute\<close> (lines 203-204) the
  outcome of \<^verbatim>\<open>write\<close> is passed on as it is.\<close>

fun run_reaction :: "reaction \<times> outcome \<Rightarrow> session \<Rightarrow> session" where
  "run_reaction (AuthenticateThen p, Resolved data) s =
     (if data = Str ''success'' then resolve p Undefined (s\<lparr>authenticated := True\<rparr>)
      else reject p (Error ''Unable to authenticate'') (snd (disconnect s)))"
| "run_reaction (AuthenticateThen p, Rejected e) s = reject p e s"
| "run_reaction (ExecuteThen p, Resolved data) s = resolve p data s"
| "run_reaction (ExecuteThen p, Rejected e) s = reject p e s"
| "run_reaction (k, Pending) s = s"

text \<open>The work left for the microtask queue: the chains queued and the chains still waiting.\<close>

definition load :: "session \<Rightarrow> nat" where
  "load s = length (microtasks s) + sum_list (map (\<lambda>p. length (reactions p)) (promises s))"

text \<open>Running a queued chain never adds work: the number of queued microtasks plus the
  number of chains still waiting on promises is unchanged by it, so draining the queue ends.\<close>

lemma sum_list_reactions_update:
  assumes "p < length ps"
  shows "sum_list (map (\<lambda>x. length (reactions x)) (ps[p := y])) + length (reactions (ps ! p))
         = sum_list (map (\<lambda>x. length (reactions x)) ps) + length (reactions y)"
  using assms
proof (induction ps arbitrary: p)
  case Nil
  then show ?case by simp
next
  case (Cons a ps)
  then show ?case by (cases p) auto
qed

lemma load_settle: "load (settle p out s) = load s"
  using sum_list_reactions_update [of p "promises s" "\<lparr>outcome = out, reactions = []\<rparr>"]
  by (auto simp add: settle_def load_def)

lemma load_disconnect: "load (snd (disconnect s)) = load s"
  by (simp add: disconnect_def new_promise_def load_def Let_def)

lemma load_run_reaction: "load (run_reaction m s) = load s"
  by (cases "(m, s)" rule: run_reaction.cases)
     (simp_all add: resolve_def reject_def load_settle load_disconnect, simp add: load_def)

text \<open>After the running callback returns, the microtask queue is drained, oldest first.\<close>

function run_microtasks :: "session \<Rightarrow> session" where
  "run_microtasks s =
     (case microtasks s of
        [] \<Rightarrow> s
      | m # ms \<Rightarrow> run_microtasks (run_reaction m (s\<lparr>microtasks := ms\<rparr>)))"
  by pat_completeness auto
termination
  by (relation "measure load") (simp_all add: load_run_reaction, simp add: load_def)

subsection \<open>write\<close>

definition remove_data_listener :: "data_listener \<Rightarrow> session \<Rightarrow> session" where
  "remove_data_listener l s =
     s\<lparr>connection := (connection s)\<lparr>data_listeners := removeListener l (data_listeners (connection s))\<rparr>\<rparr>"

definition remove_error_listener :: "error_listener \<Rightarrow> session \<Rightarrow> session" where
  "remove_error_listener l s =
     s\<lparr>connection := (connection s)\<lparr>error_listeners := removeListener l (error_listeners (connection s))\<rparr>\<rparr>"

definition remove_close_listener :: "close_listener \<Rightarrow> session \<Rightarrow> session" where
  "remove_close_listener l s =
     s\<lparr>connection := (connection s)\<lparr>close_listeners := removeListener l (close_listeners (connection s))\<rparr>\<rparr>"

text \<open>\<^verbatim>\<open>text.replace(/\n$/, replacement)\<close>: the pattern matches a line feed that ends the text.\<close>

definition replace_trailing_newline :: "string \<Rightarrow> string \<Rightarrow> string" where
  "replace_trailing_newline text replacement =
     (if text \<noteq> [] \<and> last text = CHR 0x0A then butlast text @ replacement else text)"

text \<open>The handler \<^verbatim>\<open>onData\<close> of a \<^verbatim>\<open>write\<close> call (lines 144-168), with \<open>type\<close> and the promise of
  that call. The first branch returns at once, with both listeners still attached. The variable
  \<^verbatim>\<open>response\<close> of the call is the empty string when the last branch appends to it, since that
  branch detaches the handler. A delivery the codec cannot decode raises inside the handler,
  before any effect on the session.\<close>

fun onData :: "data_listener \<Rightarrow> byte list \<Rightarrow> session \<Rightarrow> session" where
  "onData (OnData type p) packet s =
     (case decode packet (encoding s) of
        None \<Rightarrow> s
      | Some decodedPacket \<Rightarrow>
          if type = SERVERDATA_AUTH \<and> packet_type decodedPacket \<noteq> SERVERDATA_AUTH_RESPONSE then
            resolve p (Str ''failed'') s
          else if type = SERVERDATA_AUTH \<and> packet_type decodedPacket = SERVERDATA_AUTH_RESPONSE then
            let s1 = (if packet_id decodedPacket \<noteq> - 1 then resolve p (Str ''success'') s
                      else resolve p (Str ''failed'') s);
                s2 = remove_data_listener (OnData type p) s1
            in remove_error_listener (WriteOnError type p) s2
          else
            let response = [] @ replace_trailing_newline (packet_body decodedPacket) [CHR 0x0A];
                s1 = remove_data_listener (OnData type p) s;
                s2 = resolve p (Str response) s1
            in remove_error_listener (WriteOnError type p) s2)"

text \<open>The error handlers of \<^verbatim>\<open>write\<close> (lines 170-173) and of \<^verbatim>\<open>disconnect\<close> (lines 124-127), and
  the close handler of \<^verbatim>\<open>disconnect\<close> (lines 119-122).\<close>

fun onError :: "error_listener \<Rightarrow> error \<Rightarrow> session \<Rightarrow> session" where
  "onError (WriteOnError type p) e s = reject p e (remove_data_listener (OnData type p) s)"
| "onError (DisconnectOnError p) e s = reject p e (remove_close_listener (OnClose p) s)"

fun onClose :: "close_listener \<Rightarrow> session \<Rightarrow> session" where
  "onClose (OnClose p) s = resolve p Undefined (remove_error_listener (DisconnectOnError p) s)"

text \<open>\<^verbatim>\<open>write(type, id, body)\<close>, lines 141-184, returning the promise and the new state. The
  rejection of line 178 does not leave the function: lines 180-182 run in either case.\<close>

definition write_packet :: "int32 \<Rightarrow> int32 \<Rightarrow> string \<Rightarrow> session \<Rightarrow> nat \<times> session" where
  "write_packet type ident body s =
     (let (p, s0) = new_promise s;
          encodedPacket = encode type ident body (encoding s0);
          s1 = (if maximumPacketSize s0 > 0 \<and> int (length encodedPacket) > maximumPacketSize s0
                then reject p (Error ''Packet too long'') s0 else s0);
          s2 = s1\<lparr>connection := (connection s1)\<lparr>data_listeners := data_listeners (connection s1) @ [OnData type p]\<rparr>\<rparr>;
          s3 = s2\<lparr>connection := (connection s2)\<lparr>error_listeners := error_listeners (connection s2) @ [WriteOnError type p]\<rparr>\<rparr>;
          s4 = s3\<lparr>connection := (connection s3)\<lparr>written := written (connection s3) @ [encodedPacket]\<rparr>\<rparr>
      in (p, s4))"

subsection \<open>authenticate and execute\<close>

text \<open>\<^verbatim>\<open>authenticate(password)\<close>, lines 90-108. The rejection of line 93 does not leave the
  function either.\<close>

definition authenticate :: "int32 \<Rightarrow> string \<Rightarrow> session \<Rightarrow> nat \<times> session" where
  "authenticate ID_AUTH password s =
     (let (p, s0) = new_promise s;
          s1 = (if authenticated s0 then reject p (Error ''Already authenticated'') s0 else s0);
          (w, s2) = write_packet SERVERDATA_AUTH ID_AUTH password s1;
          s3 = then_catch w (AuthenticateThen p) s2
      in (p, s3))"

text \<open>Double-precision numbers: an integer of magnitude below \<^verbatim>\<open>2^53\<close> scaled by a power of two
  within the exponent range. A rounding function rounds to nearest when, for every exact value
  in the range where rounding does not overflow, no double is closer to it than the result.\<close>

definition is_double :: "real \<Rightarrow> bool" where
  "is_double x =
     (\<exists>(m::int) (k::nat). \<bar>m\<bar> < 2 ^ 53 \<and>
        (k \<le> 971 \<and> x = of_int m * 2 ^ k \<or> k \<le> 1074 \<and> x = of_int m / 2 ^ k))"

definition rounds_to_nearest :: "(real \<Rightarrow> real) \<Rightarrow> bool" where
  "rounds_to_nearest rnd =
     (\<forall>x d. \<bar>x\<bar> \<le> 2 ^ 1023 \<and> is_double d \<longrightarrow> \<bar>rnd x - x\<bar> \<le> \<bar>d - x\<bar>)"

text \<open>Line 193: \<^verbatim>\<open>Math.floor(Math.random() * (256 - 1) + 1)\<close>, where \<open>random\<close> is the number drawn
  and \<open>rnd\<close> the rounding of the arithmetic: the product is rounded, and so is the sum.\<close>

definition packetID :: "(real \<Rightarrow> real) \<Rightarrow> real \<Rightarrow> int" where
  "packetID rnd random = \<lfloor>rnd (rnd (random * (256 - 1)) + 1)\<rfloor>"

text \<open>The job \<^verbatim>\<open>execute\<close> pushes (lines 201-205): \<^verbatim>\<open>write\<close> takes three arguments, so the fourth
  one of line 202 has no effect, and the codec stores \<^verbatim>\<open>packetID\<close> as a 32-bit integer.\<close>

fun run_job :: "job \<Rightarrow> session \<Rightarrow> session" where
  "run_job (ExecuteJob p ident command) s =
     (let (w, s1) = write_packet SERVERDATA_EXECCOMMAND (word_of_int ident) command s
      in then_catch w (ExecuteThen p) s1)"

text \<open>The sequencer starting a job: nothing happens while a job is in flight or when no job
  waits; otherwise the oldest job is taken from the queue, counted as in flight and called.\<close>

definition q_start :: "session \<Rightarrow> session" where
  "q_start s =
     (if 1 \<le> pending (q s) then s
      else case jobs (q s) of
             [] \<Rightarrow> s
           | job # rest \<Rightarrow> run_job job (s\<lparr>q := \<lparr>jobs = rest, pending = pending (q s) + 1\<rparr>\<rparr>))"

text \<open>\<^verbatim>\<open>q.push(job)\<close>: the job is appended and, the queue being auto-started, the sequencer is
  asked to start a job at once.\<close>

definition q_push :: "job \<Rightarrow> session \<Rightarrow> session" where
  "q_push job s = q_start (s\<lparr>q := (q s)\<lparr>jobs := jobs (q s) @ [job]\<rparr>\<rparr>)"

text \<open>The job of \<^verbatim>\<open>execute\<close> takes no callback and returns nothing, so the sequencer never
  learns that it has ended: the job in flight ends when its timeout fires, and the sequencer
  then starts the next one.\<close>

definition q_timeout :: "session \<Rightarrow> session" where
  "q_timeout s =
     (if pending (q s) = 0 then s
      else q_start (s\<lparr>q := (q s)\<lparr>pending := pending (q s) - 1\<rparr>\<rparr>))"

text \<open>\<^verbatim>\<open>execute(command)\<close>, lines 191-207. Neither rejection leaves the function: the job is
  pushed in every case.\<close>

definition execute :: "(real \<Rightarrow> real) \<Rightarrow> real \<Rightarrow> string \<Rightarrow> session \<Rightarrow> nat \<times> session" where
  "execute rnd random command s =
     (let (p, s0) = new_promise s;
          s1 = (if \<not> writable (connection s0) then reject p (Error ''Unable to write to socket'') s0 else s0);
          s2 = (if \<not> authenticated s1 then reject p (Error ''Unable to authenticate'') s1 else s1);
          s3 = q_push (ExecuteJob p (packetID rnd random) command) s2
      in (p, s3))"

subsection \<open>Events\<close>

text \<open>The transport emitting an event: the listeners attached when the event is emitted are
  called in the order they were attached. The error and close listeners are one-shot
  (\<^verbatim>\<open>once\<close>): each is detached before it is called.\<close>

definition emit_data :: "byte list \<Rightarrow> session \<Rightarrow> session" where
  "emit_data packet s = fold (\<lambda>l. onData l packet) (data_listeners (connection s)) s"

definition emit_error :: "error \<Rightarrow> session \<Rightarrow> session" where
  "emit_error e s =
     fold (\<lambda>l s'. onError l e (remove_error_listener l s')) (error_listeners (connection s)) s"

definition emit_close :: "session \<Rightarrow> session" where
  "emit_close s =
     fold (\<lambda>l s'. onClose l (remove_close_listener l s')) (close_listeners (connection s)) s"

text \<open>\<^verbatim>\<open>options = {}\<close>: the constructor called with no options.\<close>

definition no_options :: options where
  "no_options = \<lparr>opt_host = None, opt_port = None, opt_maximumPacketSize = None,
                  opt_encoding = None, opt_timeout = None\<rparr>"

subsection \<open>Sessions and notions used in the statements\<close>

text \<open>The promise a data handler belongs to.\<close>

fun listener_promise :: "data_listener \<Rightarrow> nat" where
  "listener_promise (OnData type p) = p"

text \<open>A session constructed with \<^verbatim>\<open>maximumPacketSize: 10\<close>.\<close>

definition small_session :: session where
  "small_session = constructor (no_options\<lparr>opt_maximumPacketSize := Some 10\<rparr>)"

text \<open>A default session after a handshake that succeeded: \<^verbatim>\<open>authenticate\<close> with request id 1,
  answered by one delivery, an \<^verbatim>\<open>AUTH_RESPONSE\<close> frame with id 1.\<close>

definition authenticated_session :: session where
  "authenticated_session =
     run_microtasks (emit_data (encode SERVERDATA_AUTH_RESPONSE 1 [] ''ascii'')
       (snd (authenticate 1 ''mypassword'' (constructor no_options))))"

section \<open>Properties of the packet codec\<close>

text \<open>The four bytes \<open>writeInt32LE\<close> produces, read back by \<open>readInt32LE\<close>, give the same
  32-bit value, wherever they stand in a buffer.\<close>

lemma int32_bytes_join:
  "(ucast (ucast w :: byte) :: int32) OR push_bit 8 (ucast (ucast (drop_bit 8 w) :: byte))
     OR push_bit 16 (ucast (ucast (drop_bit 16 w) :: byte))
     OR push_bit 24 (ucast (ucast (drop_bit 24 w) :: byte)) = w"
proof (rule bit_word_eqI)
  fix n assume n: "n < LENGTH(32)"
  consider "n < 8" | "8 \<le> n" "n < 16" | "16 \<le> n" "n < 24" | "24 \<le> n" "n < 32"
    using n by fastforce
  then show "bit ((ucast (ucast w :: byte) :: int32) OR push_bit 8 (ucast (ucast (drop_bit 8 w) :: byte))
       OR push_bit 16 (ucast (ucast (drop_bit 16 w) :: byte))
       OR push_bit 24 (ucast (ucast (drop_bit 24 w) :: byte))) n = bit w n"
    by cases (auto simp add: bit_simps)
qed

lemma length_writeInt32LE: "length (writeInt32LE w) = 4"
  by (simp add: writeInt32LE_def)

lemma readInt32LE_writeInt32LE:
  "readInt32LE (pre @ writeInt32LE w @ post) (length pre) = w"
  using int32_bytes_join [of w]
  by (simp add: readInt32LE_def writeInt32LE_def nth_append)

lemma char_of_byte_of_char: "char_of_byte (byte_of_char c) = c"
  by (simp add: char_of_byte_def byte_of_char_def unat_of_nat)

lemma length_encode: "length (encode type ident body enc) = 14 + length body"
  by (simp add: encode_def length_writeInt32LE)

lemma decode_encode_fields:
  "decode (encode type ident body enc) enc' =
     Some \<lparr>packet_size = word_of_nat (4 + 4 + length body + 2), packet_id = ident,
           packet_type = type, packet_body = trim_newline body\<rparr>"
proof -
  let ?sz = "word_of_nat (4 + 4 + length body + 2) :: int32"
  let ?rest = "map byte_of_char body @ [0] @ [0]"
  have e: "encode type ident body enc
         = writeInt32LE ?sz @ writeInt32LE ident @ writeInt32LE type @ ?rest"
    by (simp add: encode_def)
  have r0: "readInt32LE (encode type ident body enc) 0 = ?sz"
    using readInt32LE_writeInt32LE [of "[]" ?sz "writeInt32LE ident @ writeInt32LE type @ ?rest"]
    by (simp add: e)
  have r4: "readInt32LE (encode type ident body enc) 4 = ident"
    using readInt32LE_writeInt32LE [of "writeInt32LE ?sz" ident "writeInt32LE type @ ?rest"]
    by (simp add: e length_writeInt32LE)
  have r8: "readInt32LE (encode type ident body enc) 8 = type"
    using readInt32LE_writeInt32LE [of "writeInt32LE ?sz @ writeInt32LE ident" type ?rest]
    by (simp add: e length_writeInt32LE)
  have b: "map char_of_byte (take (length (encode type ident body enc) - 14)
             (drop 12 (encode type ident body enc))) = body"
    by (simp add: e length_writeInt32LE comp_def char_of_byte_of_char)
  show ?thesis
    unfolding decode_def using r0 r4 r8 b by (simp add: length_encode)
qed

text \<open>C5, as stated, fails: \<open>decode\<close> trims a trailing newline, so a body that ends with a
  newline (and holds no terminator byte) does not come back exactly. The frame built from
  \<^verbatim>\<open>"status\n"\<close> decodes to the body \<^verbatim>\<open>"status"\<close>.\<close>

theorem decode_encode_newline_counterexample:
  "CHR 0x00 \<notin> set ''status\<newline>''
   \<and> decode (encode 2 1 ''status\<newline>'' ''ascii'') ''ascii'' =
       Some \<lparr>packet_size = 17, packet_id = 1, packet_type = 2, packet_body = ''status''\<rparr>
   \<and> decode (encode 2 1 ''status\<newline>'' ''ascii'') ''ascii'' \<noteq>
       Some \<lparr>packet_size = 17, packet_id = 1, packet_type = 2, packet_body = ''status\<newline>''\<rparr>"
  by (simp add: decode_encode_fields trim_newline_def)

text \<open>C5 (amended): for every \<open>type\<close>, \<open>id\<close> and \<open>body\<close> where the body contains no embedded
  terminator byte and does not end with a newline, decoding the encoded frame returns exactly
  type, id and body, with the size field holding 4 + 4 + len(body) + 2 as a 32-bit integer; the
  encoded frame ends, after the twelve header bytes and the body, with two zero bytes.\<close>

theorem decode_encode_roundtrip:
  assumes "CHR 0x00 \<notin> set body" and "body = [] \<or> last body \<noteq> CHR 0x0A"
  shows "decode (encode type ident body enc) enc =
           Some \<lparr>packet_size = word_of_nat (4 + 4 + length body + 2), packet_id = ident,
                 packet_type = type, packet_body = body\<rparr>
         \<and> drop (4 + 4 + 4 + length body) (encode type ident body enc) = [0, 0]"
proof -
  have "trim_newline body = body"
    using assms(2) by (auto simp add: trim_newline_def)
  moreover have "drop (4 + 4 + 4 + length body) (encode type ident body enc) = [0, 0]"
    by (simp add: encode_def length_writeInt32LE)
  ultimately show ?thesis
    by (simp add: decode_encode_fields)
qed

text \<open>The scenario of the specification: \<^verbatim>\<open>encode(3, 1, "mypassword")\<close>, decoded.\<close>

theorem decode_encode_roundtrip_witness:
  "CHR 0x00 \<notin> set ''mypassword'' \<and> (''mypassword'' = [] \<or> last ''mypassword'' \<noteq> CHR 0x0A)
   \<and> decode (encode 3 1 ''mypassword'' ''ascii'') ''ascii'' =
       Some \<lparr>packet_size = 20, packet_id = 1, packet_type = 3, packet_body = ''mypassword''\<rparr>
   \<and> drop 22 (encode 3 1 ''mypassword'' ''ascii'') = [0, 0]"
proof -
  have h1: "CHR 0x00 \<notin> set ''mypassword''" by simp
  have h2: "''mypassword'' = [] \<or> last ''mypassword'' \<noteq> CHR 0x0A" by simp
  show ?thesis
    using h1 h2 decode_encode_roundtrip [OF h1 h2, of 3 1 "''ascii''"] by simp
qed

section \<open>Properties of the session\<close>

subsection \<open>Evaluating sessions\<close>

text \<open>Draining the microtask queue, one step at a time.\<close>

lemma run_microtasks_Nil: "microtasks s = [] \<Longrightarrow> run_microtasks s = s"
  by (subst run_microtasks.simps) simp

lemma run_microtasks_Cons:
  "microtasks s = m # ms \<Longrightarrow> run_microtasks s = run_microtasks (run_reaction m (s\<lparr>microtasks := ms\<rparr>))"
  by (subst run_microtasks.simps) simp

text \<open>A \<^verbatim>\<open>write\<close> that passes the size check, and an \<^verbatim>\<open>authenticate\<close> on a session that is not
  authenticated, in closed form.\<close>

lemma write_packet_accepted:
  assumes "\<not> (0 < maximumPacketSize s \<and> maximumPacketSize s < int (length (encode type ident body (encoding s))))"
  shows "write_packet type ident body s =
     (length (promises s),
      s\<lparr>promises := promises s @ [\<lparr>outcome = Pending, reactions = []\<rparr>],
        connection := (connection s)
          \<lparr>data_listeners := data_listeners (connection s) @ [OnData type (length (promises s))],
           error_listeners := error_listeners (connection s) @ [WriteOnError type (length (promises s))],
           written := written (connection s) @ [encode type ident body (encoding s)]\<rparr>\<rparr>)"
  using assms by (auto simp add: write_packet_def new_promise_def Let_def)

lemma authenticate_unauthenticated:
  assumes "\<not> authenticated s"
    and "\<not> (0 < maximumPacketSize s \<and> maximumPacketSize s < int (length (encode SERVERDATA_AUTH ID_AUTH password (encoding s))))"
  shows "authenticate ID_AUTH password s =
     (length (promises s),
      s\<lparr>promises := promises s @ [\<lparr>outcome = Pending, reactions = []\<rparr>,
                                    \<lparr>outcome = Pending, reactions = [AuthenticateThen (length (promises s))]\<rparr>],
        connection := (connection s)
          \<lparr>data_listeners := data_listeners (connection s) @ [OnData SERVERDATA_AUTH (Suc (length (promises s)))],
           error_listeners := error_listeners (connection s) @ [WriteOnError SERVERDATA_AUTH (Suc (length (promises s)))],
           written := written (connection s) @ [encode SERVERDATA_AUTH ID_AUTH password (encoding s)]\<rparr>\<rparr>)"
  using assms
  by (simp add: authenticate_def new_promise_def write_packet_accepted then_catch_def Let_def nth_append
        list_update_append)





lemmas session_eval =
  constructor_def no_options_def or_number_def or_string_def createConnection_def Let_def split_def
  new_promise_def settle_def resolve_def reject_def then_catch_def write_packet_def authenticate_def
  emit_data_def run_microtasks_Nil run_microtasks_Cons remove_data_listener_def
  execute_def q_push_def q_start_def q_timeout_def
  remove_error_listener_def removeListener_def disconnect_def length_encode decode_encode_fields
  trim_newline_def nth_append list_update_append
  SERVERDATA_AUTH_def SERVERDATA_AUTH_RESPONSE_def SERVERDATA_EXECCOMMAND_def
  SERVERDATA_RESPONSE_VALUE_def

lemma authenticated_session_state:
  "authenticated authenticated_session
   \<and> writable (connection authenticated_session)
   \<and> data_listeners (connection authenticated_session) = []
   \<and> microtasks authenticated_session = []
   \<and> q authenticated_session = \<lparr>jobs = [], pending = 0\<rparr>
   \<and> written (connection authenticated_session) = [encode SERVERDATA_AUTH 1 ''mypassword'' ''ascii'']
   \<and> length (promises authenticated_session) = 2
   \<and> maximumPacketSize authenticated_session = 4096
   \<and> encoding authenticated_session = ''ascii''"
  by (simp add: authenticated_session_def session_eval)

subsection \<open>Construction\<close>

text \<open>C10: an option given with a falsy value (the empty string for host or encoding, 0 for
  port, maximumPacketSize or timeout) yields the same session as the option omitted, and the
  field holds the documented default: host 127.0.0.1, port 27015, maximumPacketSize 4096,
  encoding ascii, timeout 1000.\<close>

theorem constructor_falsy_option_is_default:
  "constructor (opts\<lparr>opt_host := Some []\<rparr>) = constructor (opts\<lparr>opt_host := None\<rparr>)
   \<and> host (constructor (opts\<lparr>opt_host := Some []\<rparr>)) = ''127.0.0.1''
   \<and> constructor (opts\<lparr>opt_port := Some 0\<rparr>) = constructor (opts\<lparr>opt_port := None\<rparr>)
   \<and> port (constructor (opts\<lparr>opt_port := Some 0\<rparr>)) = 27015
   \<and> constructor (opts\<lparr>opt_maximumPacketSize := Some 0\<rparr>) = constructor (opts\<lparr>opt_maximumPacketSize := None\<rparr>)
   \<and> maximumPacketSize (constructor (opts\<lparr>opt_maximumPacketSize := Some 0\<rparr>)) = 4096
   \<and> constructor (opts\<lparr>opt_encoding := Some []\<rparr>) = constructor (opts\<lparr>opt_encoding := None\<rparr>)
   \<and> encoding (constructor (opts\<lparr>opt_encoding := Some []\<rparr>)) = ''ascii''
   \<and> constructor (opts\<lparr>opt_timeout := Some 0\<rparr>) = constructor (opts\<lparr>opt_timeout := None\<rparr>)
   \<and> timeout (constructor (opts\<lparr>opt_timeout := Some 0\<rparr>)) = 1000"
  by (simp add: constructor_def or_string_def or_number_def Let_def)

text \<open>C8: the source documents \<^verbatim>\<open>maximumPacketSize\<close> as "zero to unlimit" and \<^verbatim>\<open>write\<close> skips the
  check when the field is 0, but the constructor turns an option of 0 into 4096. A session
  constructed with \<^verbatim>\<open>maximumPacketSize: 0\<close> therefore still rejects a packet of 4097 bytes as too
  long: the claim that such a session never fails with PacketTooLarge does not hold of the
  code.\<close>

theorem constructor_zero_maximumPacketSize_still_checked:
  "maximumPacketSize (constructor (no_options\<lparr>opt_maximumPacketSize := Some 0\<rparr>)) = 4096
   \<and> length (encode SERVERDATA_EXECCOMMAND 1 (replicate 4083 CHR ''a'') ''ascii'') = 4097
   \<and> outcome (promises (snd (write_packet SERVERDATA_EXECCOMMAND 1 (replicate 4083 CHR ''a'')
         (constructor (no_options\<lparr>opt_maximumPacketSize := Some 0\<rparr>)))) ! 0)
       = Rejected (Error ''Packet too long'')"
  by (simp add: constructor_def no_options_def or_number_def or_string_def Let_def length_encode
      write_packet_def new_promise_def reject_def settle_def)

subsection \<open>The handshake\<close>

text \<open>C1: on a session that is not authenticated and has no data handler attached, with an
  \<^verbatim>\<open>AUTH\<close> packet that passes the size check, \<^verbatim>\<open>authenticate\<close> writes the packet and is pending
  until the first delivery. After that delivery (decoded to \<open>d\<close>) the call has succeeded, and
  \<open>authenticated\<close> is true, if \<open>d\<close> is of type \<^verbatim>\<open>AUTH_RESPONSE\<close> with an id other than -1; in every
  other case (another type, or id -1) the call has failed on that same delivery,
  \<open>authenticated\<close> is false and the connection has been destroyed.\<close>

theorem authenticate_decided_by_first_delivery:
  assumes "\<not> authenticated s"
    and "data_listeners (connection s) = []"
    and "microtasks s = []"
    and "\<not> (0 < maximumPacketSize s
            \<and> maximumPacketSize s < int (length (encode SERVERDATA_AUTH ID_AUTH password (encoding s))))"
    and "decode packet (encoding s) = Some d"
  shows "let (p, s1) = authenticate ID_AUTH password s;
             s2 = run_microtasks (emit_data packet (run_microtasks s1))
         in written (connection s1) = written (connection s) @ [encode SERVERDATA_AUTH ID_AUTH password (encoding s)]
            \<and> outcome (promises (run_microtasks s1) ! p) = Pending
            \<and> (if packet_type d = SERVERDATA_AUTH_RESPONSE \<and> packet_id d \<noteq> - 1
                then outcome (promises s2 ! p) = Resolved Undefined \<and> authenticated s2
                else outcome (promises s2 ! p) = Rejected (Error ''Unable to authenticate'')
                     \<and> \<not> authenticated s2 \<and> destroyed (connection s2))"
  using assms
  by (simp add: authenticate_unauthenticated run_microtasks_Nil emit_data_def)
     (simp add: resolve_def reject_def settle_def nth_append list_update_append
        remove_data_listener_def remove_error_listener_def Let_def run_microtasks_Cons
        run_microtasks_Nil disconnect_def new_promise_def)

text \<open>A default session, the password \<^verbatim>\<open>"mypassword"\<close> and an \<^verbatim>\<open>AUTH_RESPONSE\<close> frame with id 1:
  the call succeeds.\<close>

theorem authenticate_decided_by_first_delivery_witness:
  "\<not> authenticated (constructor no_options)
   \<and> data_listeners (connection (constructor no_options)) = []
   \<and> microtasks (constructor no_options) = []
   \<and> \<not> (0 < maximumPacketSize (constructor no_options)
         \<and> maximumPacketSize (constructor no_options)
             < int (length (encode SERVERDATA_AUTH 1 ''mypassword'' (encoding (constructor no_options)))))
   \<and> decode (encode SERVERDATA_AUTH_RESPONSE 1 [] ''ascii'') (encoding (constructor no_options))
       = Some \<lparr>packet_size = 10, packet_id = 1, packet_type = 2, packet_body = []\<rparr>
   \<and> (let (p, s1) = authenticate 1 ''mypassword'' (constructor no_options);
           s2 = run_microtasks (emit_data (encode SERVERDATA_AUTH_RESPONSE 1 [] ''ascii'') (run_microtasks s1))
       in outcome (promises s2 ! p) = Resolved Undefined \<and> authenticated s2)"
proof -
  let ?s = "constructor no_options"
  have h1: "\<not> authenticated ?s" by code_simp
  have h2: "data_listeners (connection ?s) = []" by code_simp
  have h3: "microtasks ?s = []" by code_simp
  have h4: "\<not> (0 < maximumPacketSize ?s
         \<and> maximumPacketSize ?s < int (length (encode SERVERDATA_AUTH 1 ''mypassword'' (encoding ?s))))"
    by code_simp
  have h5: "decode (encode SERVERDATA_AUTH_RESPONSE 1 [] ''ascii'') (encoding ?s)
       = Some \<lparr>packet_size = 10, packet_id = 1, packet_type = 2, packet_body = []\<rparr>"
    by code_simp
  show ?thesis
    using h1 h2 h3 h4 h5 authenticate_decided_by_first_delivery [OF h1 h2 h3 h4 h5]
    by (simp add: SERVERDATA_AUTH_RESPONSE_def split_def Let_def)
qed

text \<open>C7: \<^verbatim>\<open>authenticate\<close> on a session that is already authenticated is rejected with
  "Already authenticated", but the rejection of line 93 is not followed by a return: line 96
  still runs and a second \<^verbatim>\<open>AUTH\<close> packet is passed to the transport. The claim that nothing is
  sent does not hold of the code.\<close>

theorem authenticate_again_is_written:
  "authenticated authenticated_session
   \<and> written (connection authenticated_session) = [encode SERVERDATA_AUTH 1 ''mypassword'' ''ascii'']
   \<and> fst (authenticate 1 ''mypassword'' authenticated_session) = 2
   \<and> outcome (promises (snd (authenticate 1 ''mypassword'' authenticated_session)) ! 2)
       = Rejected (Error ''Already authenticated'')
   \<and> written (connection (snd (authenticate 1 ''mypassword'' authenticated_session)))
       = [encode SERVERDATA_AUTH 1 ''mypassword'' ''ascii'', encode SERVERDATA_AUTH 1 ''mypassword'' ''ascii'']"
  using authenticated_session_state
  by (simp add: authenticate_def write_packet_def new_promise_def reject_def settle_def then_catch_def
      Let_def split_def length_encode nth_append list_update_append)

subsection \<open>write and its handlers\<close>

text \<open>In every case \<^verbatim>\<open>write\<close> passes the encoded packet to the transport, and \<^verbatim>\<open>authenticate\<close>
  calls \<^verbatim>\<open>write\<close>: no rejection stops either.\<close>

lemma write_packet_always_writes:
  "written (connection (snd (write_packet type ident body s)))
     = written (connection s) @ [encode type ident body (encoding s)]"
  by (simp add: write_packet_def new_promise_def reject_def settle_def Let_def)

lemma authenticate_always_writes:
  "written (connection (snd (authenticate ID_AUTH password s)))
     = written (connection s) @ [encode SERVERDATA_AUTH ID_AUTH password (encoding s)]"
  by (simp add: authenticate_def write_packet_def new_promise_def reject_def settle_def
      then_catch_def Let_def split_def)

text \<open>C2: on a session with \<^verbatim>\<open>maximumPacketSize\<close> 10, \<^verbatim>\<open>write\<close> of the 30-byte packet for
  \<^verbatim>\<open>"averylongcommand"\<close> is rejected with "Packet too long", but the rejection of line 178 is not
  followed by a return: the packet is passed to the transport all the same. \<^verbatim>\<open>execute\<close> of that
  command on the session as constructed fails with "Unable to authenticate", and its job,
  started at once by the idle sequencer, has written the packet when \<^verbatim>\<open>execute\<close> returns. The
  claim that no bytes are written does not hold of the code.\<close>

theorem write_packet_too_long_is_written:
  "maximumPacketSize small_session = 10
   \<and> length (encode SERVERDATA_EXECCOMMAND 128 ''averylongcommand'' ''ascii'') = 30
   \<and> outcome (promises (snd (write_packet SERVERDATA_EXECCOMMAND 128 ''averylongcommand'' small_session)) ! 0)
       = Rejected (Error ''Packet too long'')
   \<and> written (connection (snd (write_packet SERVERDATA_EXECCOMMAND 128 ''averylongcommand'' small_session)))
       = [encode SERVERDATA_EXECCOMMAND 128 ''averylongcommand'' ''ascii'']
   \<and> outcome (promises (run_microtasks (snd (execute (\<lambda>x. x) (1 / 2) ''averylongcommand''
          small_session))) ! 0)
       = Rejected (Error ''Unable to authenticate'')
   \<and> written (connection (snd (execute (\<lambda>x. x) (1 / 2) ''averylongcommand'' small_session)))
       = [encode SERVERDATA_EXECCOMMAND 128 ''averylongcommand'' ''ascii'']"
  by code_simp

text \<open>A handler other than \<open>x\<close> leaves the instances of \<open>x\<close> among the data handlers as they are;
  the handler \<open>x\<close>, attached once, is gone after \<^verbatim>\<open>removeListener\<close>.\<close>

lemma removeListener_other:
  assumes "l \<noteq> x"
  shows "filter ((=) x) (removeListener l ls) = filter ((=) x) ls"
proof -
  have "l \<notin> set (filter ((=) x) (rev ls))"
    using assms by auto
  then have "remove1 l (filter ((=) x) (rev ls)) = filter ((=) x) (rev ls)"
    by (rule remove1_idem)
  then show ?thesis
    by (simp add: removeListener_def filter_remove1 flip: rev_filter)
qed

lemma removeListener_only:
  assumes "filter ((=) x) ls = [x]"
  shows "x \<notin> set (removeListener x ls)"
proof -
  have "filter ((=) x) (remove1 x (rev ls)) = remove1 x (rev (filter ((=) x) ls))"
    by (simp add: filter_remove1 rev_filter)
  also have "\<dots> = []"
    using assms by simp
  finally show ?thesis
    by (auto simp add: removeListener_def filter_empty_conv)
qed

lemma settle_frame [simp]:
  "connection (settle p out s) = connection s" "encoding (settle p out s) = encoding s"
  by (simp_all add: settle_def)

lemma onData_encoding: "encoding (onData l packet s) = encoding s"
  by (cases l)
     (simp add: resolve_def remove_data_listener_def remove_error_listener_def Let_def
        split: option.split)

lemma onData_other_listener:
  assumes "l \<noteq> x"
  shows "filter ((=) x) (data_listeners (connection (onData l packet s)))
         = filter ((=) x) (data_listeners (connection s))"
  using assms
  by (cases l)
     (auto simp add: resolve_def remove_data_listener_def remove_error_listener_def Let_def
        removeListener_other split: option.split)

lemma fold_onData_others:
  assumes "x \<notin> set ls"
  shows "filter ((=) x) (data_listeners (connection (fold (\<lambda>l. onData l packet) ls s)))
           = filter ((=) x) (data_listeners (connection s))
         \<and> encoding (fold (\<lambda>l. onData l packet) ls s) = encoding s"
  using assms
proof (induction ls arbitrary: s)
  case Nil
  then show ?case by simp
next
  case (Cons l ls)
  then have "l \<noteq> x" and "x \<notin> set ls" by auto
  with Cons.IH [of "onData l packet s"] show ?case
    by (simp add: onData_other_listener onData_encoding)
qed

lemma write_packet_listener:
  "fst (write_packet type ident body s) = length (promises s)
   \<and> data_listeners (connection (snd (write_packet type ident body s)))
       = data_listeners (connection s) @ [OnData type (length (promises s))]
   \<and> encoding (snd (write_packet type ident body s)) = encoding s"
  by (simp add: write_packet_def new_promise_def reject_def Let_def)

lemma onData_own_listener:
  assumes "decode packet (encoding s) = Some d"
    and "filter ((=) (OnData type w)) (data_listeners (connection s)) = [OnData type w]"
  shows "OnData type w \<in> set (data_listeners (connection (onData (OnData type w) packet s)))
         \<longleftrightarrow> type = SERVERDATA_AUTH \<and> packet_type d \<noteq> SERVERDATA_AUTH_RESPONSE"
proof -
  have in_set: "OnData type w \<in> set (data_listeners (connection s))"
  proof -
    have "OnData type w \<in> set (filter ((=) (OnData type w)) (data_listeners (connection s)))"
      by (simp add: assms(2))
    then show ?thesis by simp
  qed
  show ?thesis
    using assms(1) in_set removeListener_only [OF assms(2)]
    by (auto simp add: resolve_def remove_data_listener_def remove_error_listener_def Let_def)
qed

text \<open>For every call to \<^verbatim>\<open>write\<close> on a session whose attached data handlers all belong to
  promises created before the call: after the next delivery (decoded to \<open>d\<close>) the handler the
  call registered is still attached exactly when the call is an \<^verbatim>\<open>AUTH\<close> write and \<open>d\<close> is not of
  type \<^verbatim>\<open>AUTH_RESPONSE\<close>.\<close>

lemma onData_detached_unless_auth_early_fail:
  assumes "\<forall>l \<in> set (data_listeners (connection s)). listener_promise l < length (promises s)"
    and "decode packet (encoding s) = Some d"
  shows "let (w, s1) = write_packet type ident body s;
             s2 = emit_data packet s1
         in OnData type w \<in> set (data_listeners (connection s1))
            \<and> (OnData type w \<in> set (data_listeners (connection s2))
                 \<longleftrightarrow> type = SERVERDATA_AUTH \<and> packet_type d \<noteq> SERVERDATA_AUTH_RESPONSE)"
proof -
  let ?w = "length (promises s)"
  let ?x = "OnData type ?w"
  let ?s1 = "snd (write_packet type ident body s)"
  let ?ls = "data_listeners (connection s)"
  let ?s' = "fold (\<lambda>l. onData l packet) ?ls ?s1"
  have fresh: "?x \<notin> set ?ls"
    using assms(1) by force
  have w: "fst (write_packet type ident body s) = ?w"
    and ls1: "data_listeners (connection ?s1) = ?ls @ [?x]"
    and enc1: "encoding ?s1 = encoding s"
    using write_packet_listener [of type ident body s] by simp_all
  have emit: "emit_data packet ?s1 = onData ?x packet ?s'"
    by (simp add: emit_data_def ls1)
  have once: "filter ((=) ?x) (data_listeners (connection ?s')) = [?x]"
    and enc': "encoding ?s' = encoding s"
    using fold_onData_others [OF fresh, of packet ?s1] fresh
    by (auto simp add: ls1 enc1 filter_empty_conv)
  have "?x \<in> set (data_listeners (connection (onData ?x packet ?s')))
         \<longleftrightarrow> type = SERVERDATA_AUTH \<and> packet_type d \<noteq> SERVERDATA_AUTH_RESPONSE"
    using assms(2) once by (intro onData_own_listener) (simp_all add: enc')
  then show ?thesis
    by (simp add: split_def Let_def w emit ls1)
qed

text \<open>C4: the handler is to be removed after firing once on every branch, but the auth
  early-fail branch (lines 149-151) settles the write and returns without either of the
  \<^verbatim>\<open>removeListener\<close> calls its two sibling branches make. After an \<^verbatim>\<open>AUTH\<close> write on a default
  session and the delivery of an empty \<^verbatim>\<open>RESPONSE_VALUE\<close> frame, the write has resolved
  (\<^verbatim>\<open>'failed'\<close>) and both of its handlers are still attached. The data handler then fires a
  second time on the next delivery, an \<^verbatim>\<open>AUTH_RESPONSE\<close> frame with id 1, which cannot change the
  outcome any more, and only then is it removed. The claim does not hold of the code on this
  branch.\<close>

theorem onData_stays_attached_after_auth_early_fail:
  "fst (write_packet SERVERDATA_AUTH 1 ''mypassword'' (constructor no_options)) = 0
   \<and> decode (encode SERVERDATA_RESPONSE_VALUE 1 [] ''ascii'') ''ascii''
       = Some \<lparr>packet_size = 10, packet_id = 1, packet_type = 0, packet_body = []\<rparr>
   \<and> outcome (promises (emit_data (encode SERVERDATA_RESPONSE_VALUE 1 [] ''ascii'')
          (snd (write_packet SERVERDATA_AUTH 1 ''mypassword'' (constructor no_options)))) ! 0)
       = Resolved (Str ''failed'')
   \<and> data_listeners (connection (emit_data (encode SERVERDATA_RESPONSE_VALUE 1 [] ''ascii'')
          (snd (write_packet SERVERDATA_AUTH 1 ''mypassword'' (constructor no_options)))))
       = [OnData SERVERDATA_AUTH 0]
   \<and> error_listeners (connection (emit_data (encode SERVERDATA_RESPONSE_VALUE 1 [] ''ascii'')
          (snd (write_packet SERVERDATA_AUTH 1 ''mypassword'' (constructor no_options)))))
       = [WriteOnError SERVERDATA_AUTH 0]
   \<and> outcome (promises (emit_data (encode SERVERDATA_AUTH_RESPONSE 1 [] ''ascii'')
          (emit_data (encode SERVERDATA_RESPONSE_VALUE 1 [] ''ascii'')
            (snd (write_packet SERVERDATA_AUTH 1 ''mypassword'' (constructor no_options))))) ! 0)
       = Resolved (Str ''failed'')
   \<and> data_listeners (connection (emit_data (encode SERVERDATA_AUTH_RESPONSE 1 [] ''ascii'')
          (emit_data (encode SERVERDATA_RESPONSE_VALUE 1 [] ''ascii'')
            (snd (write_packet SERVERDATA_AUTH 1 ''mypassword'' (constructor no_options))))))
       = []"
  by (simp add: session_eval)




subsection \<open>execute\<close>

text \<open>In every case \<^verbatim>\<open>execute\<close> pushes its job, which carries the request id of line 193. While
  another job is in flight the job waits in the queue; on an idle sequencer it is started at
  once and its packet has been passed to the transport when \<^verbatim>\<open>execute\<close> returns.\<close>

lemma execute_always_enqueues:
  assumes "1 \<le> pending (q s)"
  shows "jobs (q (snd (execute rnd random command s)))
     = jobs (q s) @ [ExecuteJob (length (promises s)) (packetID rnd random) command]"
  using assms
  by (simp add: execute_def q_push_def q_start_def new_promise_def reject_def settle_def Let_def)

lemma execute_idle_always_writes:
  assumes "q s = \<lparr>jobs = [], pending = 0\<rparr>"
  shows "written (connection (snd (execute rnd random command s)))
     = written (connection s)
       @ [encode SERVERDATA_EXECCOMMAND (word_of_int (packetID rnd random)) command (encoding s)]"
  using assms
  by (simp add: execute_def q_push_def q_start_def new_promise_def reject_def settle_def Let_def
      split_def write_packet_always_writes then_catch_def)

text \<open>C3: \<^verbatim>\<open>execute\<close> on a session as constructed (not authenticated) is rejected with "Unable
  to authenticate", but the rejection of line 198 is not followed by a return: the job is
  pushed on the sequencer, which is idle and starts it at once, so the command packet has been
  passed to the transport when \<^verbatim>\<open>execute\<close> returns. A second \<^verbatim>\<open>execute\<close> is rejected likewise and
  its job waits in the queue; its packet is written when the timeout of the first job fires.
  The claim that nothing is enqueued and nothing written does not hold of the code.\<close>

theorem execute_unauthenticated_is_enqueued:
  "\<not> authenticated (constructor no_options)
   \<and> fst (execute (\<lambda>x. x) (1 / 2) ''status'' (constructor no_options)) = 0
   \<and> outcome (promises (snd (execute (\<lambda>x. x) (1 / 2) ''status'' (constructor no_options))) ! 0)
       = Rejected (Error ''Unable to authenticate'')
   \<and> q (snd (execute (\<lambda>x. x) (1 / 2) ''status'' (constructor no_options)))
       = \<lparr>jobs = [], pending = 1\<rparr>
   \<and> written (connection (snd (execute (\<lambda>x. x) (1 / 2) ''status'' (constructor no_options))))
       = [encode SERVERDATA_EXECCOMMAND 128 ''status'' ''ascii'']
   \<and> fst (execute (\<lambda>x. x) (1 / 2) ''stats''
          (snd (execute (\<lambda>x. x) (1 / 2) ''status'' (constructor no_options)))) = 2
   \<and> outcome (promises (snd (execute (\<lambda>x. x) (1 / 2) ''stats''
          (snd (execute (\<lambda>x. x) (1 / 2) ''status'' (constructor no_options))))) ! 2)
       = Rejected (Error ''Unable to authenticate'')
   \<and> q (snd (execute (\<lambda>x. x) (1 / 2) ''stats''
          (snd (execute (\<lambda>x. x) (1 / 2) ''status'' (constructor no_options)))))
       = \<lparr>jobs = [ExecuteJob 2 128 ''stats''], pending = 1\<rparr>
   \<and> written (connection (q_timeout (snd (execute (\<lambda>x. x) (1 / 2) ''stats''
          (snd (execute (\<lambda>x. x) (1 / 2) ''status'' (constructor no_options)))))))
       = [encode SERVERDATA_EXECCOMMAND 128 ''status'' ''ascii'',
          encode SERVERDATA_EXECCOMMAND 128 ''stats'' ''ascii'']"
  by code_simp

subsection \<open>The request id\<close>

text \<open>Doubles the argument needs: 0, 1, the doubles just below 255 and 256, and the fact that a
  double below 1 is at most \<^verbatim>\<open>1 - 2^-53\<close>.\<close>

lemma is_double_int: "\<bar>m\<bar> < 2 ^ 53 \<Longrightarrow> is_double (of_int m)"
  unfolding is_double_def by (rule exI [of _ m], rule exI [of _ 0]) simp

lemma is_double_frac: "\<bar>m\<bar> < 2 ^ 53 \<Longrightarrow> k \<le> 1074 \<Longrightarrow> is_double (of_int m / 2 ^ k)"
  unfolding is_double_def by (rule exI [of _ m], rule exI [of _ k]) simp

lemma is_double_0: "is_double 0"
  using is_double_int [of 0] by simp

lemma is_double_1: "is_double 1"
  using is_double_int [of 1] by simp

lemma is_double_half: "is_double (1 / 2)"
  using is_double_frac [of 1 1] by simp

lemma is_double_below_255: "is_double (255 - 1 / 2 ^ 45)"
proof -
  have "(255 - 1 / 2 ^ 45 :: real) = of_int (255 * 2 ^ 45 - 1) / 2 ^ 45"
    by simp
  then show ?thesis
    using is_double_frac [of "255 * 2 ^ 45 - 1" 45] by simp
qed

lemma is_double_below_256: "is_double (256 - 1 / 2 ^ 45)"
proof -
  have "(256 - 1 / 2 ^ 45 :: real) = of_int (256 * 2 ^ 45 - 1) / 2 ^ 45"
    by simp
  then show ?thesis
    using is_double_frac [of "256 * 2 ^ 45 - 1" 45] by simp
qed

lemma double_below_one:
  assumes "is_double x" and "x < 1"
  shows "x \<le> 1 - 1 / 2 ^ 53"
proof -
  from assms(1) obtain m :: int and k :: nat where m: "\<bar>m\<bar> < 2 ^ 53"
    and x: "x = of_int m * 2 ^ k \<or> x = of_int m / 2 ^ k"
    unfolding is_double_def by blast
  from x show ?thesis
  proof
    assume e: "x = of_int m * 2 ^ k"
    then have "x = of_int (m * 2 ^ k)" by simp
    with assms(2) have "m * 2 ^ k < 1"
      by (metis of_int_less_1_iff)
    then have "m * 2 ^ k \<le> 0" by simp
    then have "x \<le> 0"
      using \<open>x = of_int (m * 2 ^ k)\<close> by (metis of_int_le_0_iff)
    then show ?thesis by simp
  next
    assume e: "x = of_int m / 2 ^ k"
    show ?thesis
    proof (cases "k \<le> 53")
      case True
      then have p: "(2::real) ^ 53 = 2 ^ k * 2 ^ (53 - k)"
        by (simp flip: power_add)
      have "x * 2 ^ 53 = of_int m * 2 ^ (53 - k)"
        unfolding e p by simp
      then have i: "x * 2 ^ 53 = of_int (m * 2 ^ (53 - k))" by simp
      have "x * 2 ^ 53 < 2 ^ 53"
        using assms(2) by simp
      then have "of_int (m * 2 ^ (53 - k)) < (of_int (2 ^ 53) :: real)"
        using i by simp
      then have "m * 2 ^ (53 - k) < 2 ^ 53"
        by (metis of_int_less_iff)
      then have "m * 2 ^ (53 - k) \<le> 2 ^ 53 - 1" by simp
      then have "(of_int (m * 2 ^ (53 - k)) :: real) \<le> of_int (2 ^ 53 - 1)"
        by (metis of_int_le_iff)
      then have "x * 2 ^ 53 \<le> 2 ^ 53 - 1"
        using i by simp
      then show ?thesis by (simp add: field_simps)
    next
      case False
      then have "54 \<le> k" by simp
      then have "(2::real) ^ 54 \<le> 2 ^ k"
        by (intro power_increasing) simp_all
      moreover have "of_int m < (2::real) ^ 53"
        using m by (metis abs_less_iff of_int_less_iff of_int_numeral of_int_power)
      ultimately have "of_int m * 2 < (2::real) ^ k"
        by simp
      then have "x < 1 / 2"
        unfolding e by (simp add: field_simps)
      then show ?thesis by simp
    qed
  qed
qed

lemma nearest_bounds:
  assumes "rounds_to_nearest rnd" and "is_double d" and "0 \<le> x" and "x \<le> 256"
  shows "rnd x \<le> x + \<bar>d - x\<bar>" and "x - \<bar>d - x\<bar> \<le> rnd x"
proof -
  have "(256::real) \<le> 2 ^ 1023"
    using power_increasing [of 8 1023 "2::real"] by simp
  then have "\<bar>x\<bar> \<le> 2 ^ 1023"
    using assms(3,4) by simp
  then have "\<bar>rnd x - x\<bar> \<le> \<bar>d - x\<bar>"
    using assms(1,2) unfolding rounds_to_nearest_def by blast
  then show "rnd x \<le> x + \<bar>d - x\<bar>" and "x - \<bar>d - x\<bar> \<le> rnd x"
    by linarith+
qed

text \<open>C9: for every double \<open>random\<close> in [0, 1), and arithmetic that rounds to nearest, the request
  id \<^verbatim>\<open>execute\<close> computes lies in the inclusive range [1, 255].\<close>

theorem packetID_in_range:
  assumes "is_double random" and "0 \<le> random" and "random < 1"
    and "rounds_to_nearest rnd"
  shows "1 \<le> packetID rnd random \<and> packetID rnd random \<le> 255"
proof -
  let ?x = "random * (256 - 1)"
  let ?y = "rnd ?x"
  let ?z = "?y + 1"
  have r: "random \<le> 1 - 1 / 2 ^ 53"
    using assms(1,3) by (rule double_below_one)
  have x0: "0 \<le> ?x" using assms(2) by simp
  have x1: "?x \<le> 255 - 255 / 2 ^ 53" using r by simp
  have x2: "?x \<le> 256" using x1 by simp
  have y0: "0 \<le> ?y"
    using nearest_bounds(2) [OF assms(4) is_double_0 x0 x2] x0 by simp
  have y1: "?y \<le> 255 - 254 / 2 ^ 53"
    using nearest_bounds(1) [OF assms(4) is_double_below_255 x0 x2] x1 by simp
  have z2: "0 \<le> ?z" and z3: "?z \<le> 256" using y0 y1 by simp_all
  have z0: "1 \<le> rnd ?z"
    using nearest_bounds(2) [OF assms(4) is_double_1 z2 z3] y0 by simp
  have z1: "rnd ?z \<le> 256 - 252 / 2 ^ 53"
    using nearest_bounds(1) [OF assms(4) is_double_below_256 z2 z3] y1 by simp
  have "rnd ?z < 256" using z1 by simp
  then have "\<lfloor>rnd ?z\<rfloor> < 256" by (simp add: floor_less_iff)
  moreover have "1 \<le> \<lfloor>rnd ?z\<rfloor>" using z0 by (simp add: le_floor_iff)
  ultimately show ?thesis by (simp add: packetID_def)
qed

text \<open>The draw 1/2 under exact arithmetic gives the id 128.\<close>

theorem packetID_in_range_witness:
  "is_double (1 / 2) \<and> (0::real) \<le> 1 / 2 \<and> (1 / 2 :: real) < 1 \<and> rounds_to_nearest (\<lambda>x. x)
   \<and> packetID (\<lambda>x. x) (1 / 2) = 128
   \<and> 1 \<le> packetID (\<lambda>x. x) (1 / 2) \<and> packetID (\<lambda>x. x) (1 / 2) \<le> 255"
proof -
  have h1: "is_double (1 / 2)" by (rule is_double_half)
  have h2: "(0::real) \<le> 1 / 2" by simp
  have h3: "(1 / 2 :: real) < 1" by simp
  have h4: "rounds_to_nearest (\<lambda>x. x)" by (simp add: rounds_to_nearest_def)
  have v: "packetID (\<lambda>x. x) (1 / 2) = 128" by (simp add: packetID_def)
  show ?thesis
    using h1 h2 h3 h4 v packetID_in_range [OF h1 h2 h3 h4] by simp
qed

end
